theory Spec2Isabelle
  imports Complex_Main "HOL-Library.Sublist"
begin

section \<open>JavaScript numbers\<close>

text \<open>
  The fields of \<open>ImageState\<close> and every intermediate of \<open>handleDownload\<close> are JavaScript
  numbers: IEEE doubles. A finite number is modelled by the real it denotes, next to the
  three non-finite values. A product, a quotient and a decimal literal are rounded to
  the nearest double (\<open>to_double\<close>). A sum is taken exact: the sums of the source (a
  rotation plus 90, half a displayed size plus an offset) are exact in doubles on the
  integer values they have below. The sign of zero is not modelled.
\<close>

datatype jsnum = Num real | PosInf | NegInf | NaN

fun js_neg :: "jsnum \<Rightarrow> jsnum" where
  "js_neg (Num a) = Num (- a)"
| "js_neg PosInf = NegInf"
| "js_neg NegInf = PosInf"
| "js_neg NaN = NaN"

text \<open>An infinity of the sign of \<open>a\<close>; the product of zero and an infinity is NaN.\<close>

definition js_inf_of_sign :: "real \<Rightarrow> jsnum" where
  "js_inf_of_sign a = (if a = 0 then NaN else if 0 < a then PosInf else NegInf)"

text \<open>
  Rounding to the nearest double, ties to the even significand. The unit in the last
  place of \<open>x\<close> is 2 to the power \<open>double_ulp_exponent x\<close>: 52 binary places below the
  leading bit of \<open>x\<close>, and never below the 2 to the -1074 of the subnormal numbers. A
  result of magnitude 2 to the 1024 or more is the infinity of that sign.
\<close>

definition round_half_even :: "real \<Rightarrow> int" where
  "round_half_even r =
     (let f = \<lfloor>r\<rfloor>; d = r - of_int f
      in if d < 1 / 2 then f else if 1 / 2 < d then f + 1 else if even f then f else f + 1)"

definition double_ulp_exponent :: "real \<Rightarrow> int" where
  "double_ulp_exponent x = max (\<lfloor>log 2 \<bar>x\<bar>\<rfloor> - 52) (- 1074)"

definition double_overflow :: real where
  "double_overflow = 2 ^ 1024"

definition to_double :: "real \<Rightarrow> jsnum" where
  "to_double x =
     (if x = 0 then Num 0
      else let u = 2 powi (double_ulp_exponent x);
               y = of_int (round_half_even (x / u)) * u
           in if double_overflow \<le> \<bar>y\<bar> then js_inf_of_sign x else Num y)"

fun js_add :: "jsnum \<Rightarrow> jsnum \<Rightarrow> jsnum" where
  "js_add NaN b = NaN"
| "js_add a NaN = NaN"
| "js_add (Num a) (Num b) = Num (a + b)"
| "js_add (Num a) b = b"
| "js_add a (Num b) = a"
| "js_add PosInf PosInf = PosInf"
| "js_add NegInf NegInf = NegInf"
| "js_add PosInf NegInf = NaN"
| "js_add NegInf PosInf = NaN"

fun js_mul :: "jsnum \<Rightarrow> jsnum \<Rightarrow> jsnum" where
  "js_mul NaN b = NaN"
| "js_mul a NaN = NaN"
| "js_mul (Num a) (Num b) = to_double (a * b)"
| "js_mul (Num a) PosInf = js_inf_of_sign a"
| "js_mul (Num a) NegInf = js_inf_of_sign (- a)"
| "js_mul PosInf (Num b) = js_inf_of_sign b"
| "js_mul NegInf (Num b) = js_inf_of_sign (- b)"
| "js_mul PosInf PosInf = PosInf"
| "js_mul NegInf NegInf = PosInf"
| "js_mul PosInf NegInf = NegInf"
| "js_mul NegInf PosInf = NegInf"

text \<open>
  Division: a finite non-zero number over zero is an infinity of its sign, zero over
  zero is NaN, a finite number over an infinity is zero, and any other quotient of
  finite numbers is rounded. The zero divisors of the source are DOM sizes, which are
  non-negative integers, so the divisor zero is read as +0.
\<close>

fun js_div :: "jsnum \<Rightarrow> jsnum \<Rightarrow> jsnum" where
  "js_div NaN b = NaN"
| "js_div a NaN = NaN"
| "js_div (Num a) (Num b) = (if b = 0 then js_inf_of_sign a else to_double (a / b))"
| "js_div (Num a) b = Num 0"
| "js_div PosInf (Num b) = (if 0 \<le> b then PosInf else NegInf)"
| "js_div NegInf (Num b) = (if 0 \<le> b then NegInf else PosInf)"
| "js_div a b = NaN"

text \<open>\<open>Math.min\<close> and \<open>Math.max\<close>: NaN when an argument is NaN.\<close>

fun js_min :: "jsnum \<Rightarrow> jsnum \<Rightarrow> jsnum" where
  "js_min NaN b = NaN"
| "js_min a NaN = NaN"
| "js_min NegInf b = NegInf"
| "js_min a NegInf = NegInf"
| "js_min PosInf b = b"
| "js_min a PosInf = a"
| "js_min (Num a) (Num b) = Num (min a b)"

fun js_max :: "jsnum \<Rightarrow> jsnum \<Rightarrow> jsnum" where
  "js_max NaN b = NaN"
| "js_max a NaN = NaN"
| "js_max PosInf b = PosInf"
| "js_max a PosInf = PosInf"
| "js_max NegInf b = b"
| "js_max a NegInf = a"
| "js_max (Num a) (Num b) = Num (max a b)"

text \<open>
  \<open>a || b\<close> on DOM sizes (\<open>offsetWidth\<close>, \<open>clientWidth\<close>, \<open>Image.width\<close> are integers):
  the left operand unless it is zero. With optional chaining on a ref that is null the
  left operand is \<open>undefined\<close>, which is falsy as well.
\<close>

definition js_or :: "int \<Rightarrow> int \<Rightarrow> int" where
  "js_or a b = (if a = 0 then b else a)"

definition js_or_opt :: "int option \<Rightarrow> int \<Rightarrow> int" where
  "js_or_opt a b = (case a of None \<Rightarrow> b | Some v \<Rightarrow> js_or v b)"

section \<open>Application state\<close>

text \<open>
  \<open>interface ImageState\<close>; the fields \<open>x\<close> and \<open>y\<close> are named \<open>img_x\<close> and \<open>img_y\<close>.
\<close>

record ImageState =
  src :: string
  img_x :: jsnum
  img_y :: jsnum
  scale :: jsnum
  rotation :: jsnum

datatype toast = ToastSuccess string | ToastError string

text \<open>
  The React state of \<open>App\<close> that the handlers below read or write: the \<open>profileImage\<close>
  and \<open>frameImage\<close> hooks, the value of the file input behind \<open>fileInputRef\<close> (None
  while the ref is null) and the toasts shown so far, oldest first.
\<close>

record AppState =
  profileImage :: "ImageState option"
  frameImage :: "string option"
  fileInputValue :: "string option"
  toasts :: "toast list"

definition initialState :: AppState where
  "initialState =
     \<lparr>profileImage = None, frameImage = Some ''/frames/DP.png'',
      fileInputValue = Some '''', toasts = []\<rparr>"

definition toast_error :: "string \<Rightarrow> AppState \<Rightarrow> AppState" where
  "toast_error m s = s\<lparr>toasts := toasts s @ [ToastError m]\<rparr>"

definition toast_success :: "string \<Rightarrow> AppState \<Rightarrow> AppState" where
  "toast_success m s = s\<lparr>toasts := toasts s @ [ToastSuccess m]\<rparr>"

section \<open>Upload\<close>

record File =
  ftype :: string
  fcontents :: string

datatype upload_type = Profile | Frame

text \<open>
  \<open>handleImageUpload\<close>, up to \<open>reader.readAsDataURL(file)\<close>: the state after the call and
  the file handed to the reader, if any.
\<close>

definition handleImageUpload ::
    "File option \<Rightarrow> upload_type \<Rightarrow> AppState \<Rightarrow> AppState \<times> File option" where
  "handleImageUpload file ty s =
     (case file of
        None \<Rightarrow> (s, None)
      | Some f \<Rightarrow>
          if prefix ''image/'' (ftype f) then (s, Some f)
          else (toast_error ''Please select a valid image file'' s, None))"

text \<open>The reader's \<open>onload\<close> callback, with the data URL it produced.\<close>

definition reader_onload :: "string \<Rightarrow> upload_type \<Rightarrow> AppState \<Rightarrow> AppState" where
  "reader_onload data ty s =
     (case ty of
        Profile \<Rightarrow>
          toast_success ''Profile image uploaded successfully!''
            (s\<lparr>profileImage :=
                 Some \<lparr>src = data, img_x = Num 0, img_y = Num 0, scale = Num 1,
                       rotation = Num 0\<rparr>\<rparr>)
      | Frame \<Rightarrow> s)"

section \<open>Rotate, zoom, clear\<close>

definition handleRotate :: "AppState \<Rightarrow> AppState" where
  "handleRotate s =
     (case profileImage s of
        None \<Rightarrow> s
      | Some prev \<Rightarrow>
          toast_success ''Image rotated!''
            (s\<lparr>profileImage := Some (prev\<lparr>rotation := js_add (rotation prev) (Num 90)\<rparr>)\<rparr>))"

definition handlePreciseRotate :: "jsnum \<Rightarrow> AppState \<Rightarrow> AppState" where
  "handlePreciseRotate r s =
     (case profileImage s of
        None \<Rightarrow> s
      | Some prev \<Rightarrow> s\<lparr>profileImage := Some (prev\<lparr>rotation := r\<rparr>)\<rparr>)"

text \<open>
  The rotation slider: \<open>min="0"\<close>, \<open>max="360"\<close>, and \<open>onChange\<close> passes
  \<open>parseInt(e.target.value)\<close>, the integer the slider stands at.
\<close>

definition rotation_slider_min :: int where
  "rotation_slider_min = 0"

definition rotation_slider_max :: int where
  "rotation_slider_max = 360"

definition rotation_slider_onChange :: "int \<Rightarrow> AppState \<Rightarrow> AppState" where
  "rotation_slider_onChange v s = handlePreciseRotate (Num (of_int v)) s"

datatype direction = ZoomIn | ZoomOut

definition zoom_factor :: "direction \<Rightarrow> jsnum" where
  "zoom_factor d = (case d of ZoomIn \<Rightarrow> to_double 1.1 | ZoomOut \<Rightarrow> to_double 0.9)"

definition zoom_message :: "direction \<Rightarrow> string" where
  "zoom_message d = (case d of ZoomIn \<Rightarrow> ''Image zoomed in!'' | ZoomOut \<Rightarrow> ''Image zoomed out!'')"

text \<open>\<open>Math.max(0.1, Math.min(3, prev.scale * factor))\<close>\<close>

definition zoomed_scale :: "direction \<Rightarrow> jsnum \<Rightarrow> jsnum" where
  "zoomed_scale d a = js_max (to_double 0.1) (js_min (Num 3) (js_mul a (zoom_factor d)))"

definition handleZoom :: "direction \<Rightarrow> AppState \<Rightarrow> AppState" where
  "handleZoom d s =
     (case profileImage s of
        None \<Rightarrow> s
      | Some prev \<Rightarrow>
          toast_success (zoom_message d)
            (s\<lparr>profileImage := Some (prev\<lparr>scale := zoomed_scale d (scale prev)\<rparr>)\<rparr>))"

definition clearAll :: "AppState \<Rightarrow> AppState" where
  "clearAll s =
     toast_success ''All images cleared!''
       (s\<lparr>profileImage := None,
          frameImage := Some ''/frames/sample-frame.svg'',
          fileInputValue := map_option (\<lambda>v. '''') (fileInputValue s)\<rparr>)"

text \<open>The scale of the photo lies in the clamp interval.\<close>

fun scale_in_bounds :: "jsnum \<Rightarrow> bool" where
  "scale_in_bounds (Num a) = (0.1 \<le> a \<and> a \<le> 3)"
| "scale_in_bounds PosInf = False"
| "scale_in_bounds NegInf = False"
| "scale_in_bounds NaN = False"

text \<open>The domain the specification gives to the rotation: from 0 up to, not including, 360.\<close>

fun spec_rotation_domain :: "jsnum \<Rightarrow> bool" where
  "spec_rotation_domain (Num a) = (0 \<le> a \<and> a < 360)"
| "spec_rotation_domain PosInf = False"
| "spec_rotation_domain NegInf = False"
| "spec_rotation_domain NaN = False"

definition photo_scale :: "AppState \<Rightarrow> jsnum option" where
  "photo_scale s = map_option scale (profileImage s)"

definition photo_rotation :: "AppState \<Rightarrow> jsnum option" where
  "photo_rotation s = map_option rotation (profileImage s)"

section \<open>The page and the images\<close>

text \<open>
  What the export reads from the page: whether \<open>canvasRef.current\<close> is there and
  whether it gives a 2D context, and the sizes of the elements behind the three other refs
  (None while a ref is null).
\<close>

record Element =
  offsetWidth :: int
  offsetHeight :: int

record Container =
  clientWidth :: int
  clientHeight :: int

record Dom =
  canvasRef :: bool
  context2d :: bool
  canvasContainerRef :: "Container option"
  frameImgElementRef :: "Element option"
  profileImgElementRef :: "Element option"

text \<open>
  A pixel: colour channels and opacity between 0 and 1, not premultiplied. An \<open>Image\<close>
  that has loaded: its natural size and its pixels.
\<close>

record rgba =
  red :: real
  green :: real
  blue :: real
  alpha :: real

type_synonym pixel = "int \<times> int"

record Img =
  width :: nat
  height :: nat
  pix :: "pixel \<Rightarrow> rgba"

definition transparent :: rgba where
  "transparent = \<lparr>red = 0, green = 0, blue = 0, alpha = 0\<rparr>"

fun in_rect :: "nat \<Rightarrow> nat \<Rightarrow> pixel \<Rightarrow> bool" where
  "in_rect w h (i, j) = (0 \<le> i \<and> i < int w \<and> 0 \<le> j \<and> j < int h)"

section \<open>The 2D canvas\<close>

text \<open>
  The part of the canvas the export uses. The transformation matrix is kept as the list
  of the transformations applied since the identity; \<open>save\<close> pushes it on a stack and
  \<open>restore\<close> pops it. The context is left at its defaults otherwise, so drawing composes
  with source-over.
\<close>

datatype xform = Translate real real | Rotate real

record Canvas =
  cwidth :: nat
  cheight :: nat
  bitmap :: "pixel \<Rightarrow> rgba"
  ctm :: "xform list"
  saved :: "xform list list"

text \<open>
  Setting \<open>canvas.width\<close> and \<open>canvas.height\<close> gives a transparent bitmap of that size and a
  context in its default state.
\<close>

definition canvas_resize :: "nat \<Rightarrow> nat \<Rightarrow> Canvas" where
  "canvas_resize w h =
     \<lparr>cwidth = w, cheight = h, bitmap = (\<lambda>p. transparent), ctm = [], saved = []\<rparr>"

text \<open>\<open>ctx.clearRect(0, 0, canvas.width, canvas.height)\<close>: the whole bitmap.\<close>

definition clearRect_all :: "Canvas \<Rightarrow> Canvas" where
  "clearRect_all c = c\<lparr>bitmap := (\<lambda>p. transparent)\<rparr>"

definition ctx_save :: "Canvas \<Rightarrow> Canvas" where
  "ctx_save c = c\<lparr>saved := ctm c # saved c\<rparr>"

definition ctx_restore :: "Canvas \<Rightarrow> Canvas" where
  "ctx_restore c =
     (case saved c of [] \<Rightarrow> c | t # ts \<Rightarrow> c\<lparr>ctm := t, saved := ts\<rparr>)"

fun js_real :: "jsnum \<Rightarrow> real option" where
  "js_real (Num a) = Some a"
| "js_real PosInf = None"
| "js_real NegInf = None"
| "js_real NaN = None"

text \<open>\<open>translate\<close> and \<open>rotate\<close> do nothing when an argument is infinite or NaN.\<close>

definition ctx_translate :: "jsnum \<Rightarrow> jsnum \<Rightarrow> Canvas \<Rightarrow> Canvas" where
  "ctx_translate tx ty c =
     (case js_real tx of
        None \<Rightarrow> c
      | Some a \<Rightarrow>
          (case js_real ty of
             None \<Rightarrow> c
           | Some b \<Rightarrow> c\<lparr>ctm := ctm c @ [Translate a b]\<rparr>))"

definition ctx_rotate :: "jsnum \<Rightarrow> Canvas \<Rightarrow> Canvas" where
  "ctx_rotate angle c =
     (case js_real angle of
        None \<Rightarrow> c
      | Some a \<Rightarrow> c\<lparr>ctm := ctm c @ [Rotate a]\<rparr>)"

text \<open>Source-over of a pixel \<open>s\<close> on a pixel \<open>b\<close>; fully transparent when both are.\<close>

definition source_over :: "rgba \<Rightarrow> rgba \<Rightarrow> rgba" where
  "source_over s b =
     (let ao = alpha s + alpha b * (1 - alpha s) in
      \<lparr>red = (red s * alpha s + red b * alpha b * (1 - alpha s)) / ao,
       green = (green s * alpha s + green b * alpha b * (1 - alpha s)) / ao,
       blue = (blue s * alpha s + blue b * alpha b * (1 - alpha s)) / ao,
       alpha = ao\<rparr>)"

definition image_layer :: "Img \<Rightarrow> pixel \<Rightarrow> rgba" where
  "image_layer img p = (if in_rect (width img) (height img) p then pix img p else transparent)"

text \<open>
  How the platform samples an image drawn under a transformation or at another size
  than its own is not fixed here: it is the parameter \<open>rs\<close> of \<open>drawImage\<close>, which gives
  the layer to compose from the matrix, the image and the destination rectangle.
\<close>

type_synonym resampler = "xform list \<Rightarrow> Img \<Rightarrow> real \<Rightarrow> real \<Rightarrow> real \<Rightarrow> real \<Rightarrow> pixel \<Rightarrow> rgba"

text \<open>
  \<open>ctx.drawImage(img, dx, dy, dw, dh)\<close>. Nothing is drawn when an argument is infinite or
  NaN, or when the image has no pixels. Under the identity matrix, at the origin and at
  the image's own size, each pixel of the image lands on the pixel of the bitmap with the
  same coordinates.
\<close>

definition draw_layer :: "(pixel \<Rightarrow> rgba) \<Rightarrow> Canvas \<Rightarrow> Canvas" where
  "draw_layer layer c =
     c\<lparr>bitmap := (\<lambda>p. if in_rect (cwidth c) (cheight c) p
                        then source_over (layer p) (bitmap c p) else bitmap c p)\<rparr>"

definition drawImage ::
    "resampler \<Rightarrow> Img \<Rightarrow> jsnum \<Rightarrow> jsnum \<Rightarrow> jsnum \<Rightarrow> jsnum \<Rightarrow> Canvas \<Rightarrow> Canvas" where
  "drawImage rs img dx dy dw dh c =
     (case js_real dx of None \<Rightarrow> c | Some x \<Rightarrow>
      (case js_real dy of None \<Rightarrow> c | Some y \<Rightarrow>
       (case js_real dw of None \<Rightarrow> c | Some w \<Rightarrow>
        (case js_real dh of None \<Rightarrow> c | Some h \<Rightarrow>
           if width img = 0 \<or> height img = 0 then c
           else if ctm c = [] \<and> x = 0 \<and> y = 0 \<and> w = real (width img) \<and> h = real (height img)
           then draw_layer (image_layer img) c
           else draw_layer (rs (ctm c) img x y w h) c))))"

section \<open>Export\<close>

text \<open>
  What the \<open>onload\<close> callbacks of \<open>handleDownload\<close> keep from the call: the displayed frame
  size read at the call, and the \<open>profileImage\<close> and \<open>frameImage\<close> of that render.
\<close>

record PendingExport =
  displayedFrameWidth :: int
  displayedFrameHeight :: int
  exportProfile :: ImageState
  exportFrame :: string

datatype ExportError = NotUploaded | NoContext

definition handleDownload ::
    "Dom \<Rightarrow> AppState \<Rightarrow> AppState \<times> (ExportError + PendingExport)" where
  "handleDownload page s =
     (let failed = (toast_error ''Please upload both profile image and frame first!'' s,
                    Inl NotUploaded)
      in if canvasRef page then
           (case profileImage s of
              None \<Rightarrow> failed
            | Some p \<Rightarrow>
                (case frameImage s of
                   None \<Rightarrow> failed
                 | Some f \<Rightarrow>
                     if f = [] then failed
                     else
                       (case canvasContainerRef page of
                          None \<Rightarrow> failed
                        | Some cont \<Rightarrow>
                            if context2d page then
                              (s, Inr \<lparr>displayedFrameWidth =
                                         js_or_opt (map_option offsetWidth (frameImgElementRef page))
                                           (clientWidth cont),
                                       displayedFrameHeight =
                                         js_or_opt (map_option offsetHeight (frameImgElementRef page))
                                           (clientHeight cont),
                                       exportProfile = p, exportFrame = f\<rparr>)
                            else (s, Inl NoContext))))
         else failed)"

text \<open>
  Lines 204 to 223 of \<open>App.tsx\<close>: the mapping from the preview to the canvas, from the
  displayed frame size, the photo's state, the photo's element in the preview and the two
  loaded images.
\<close>

record OutputDraw =
  scaleX :: jsnum
  scaleY :: jsnum
  actualX :: jsnum
  actualY :: jsnum
  destWidth :: jsnum
  destHeight :: jsnum
  rotationRadians :: jsnum

definition exportMapping ::
    "int \<Rightarrow> int \<Rightarrow> ImageState \<Rightarrow> Element option \<Rightarrow> Img \<Rightarrow> Img \<Rightarrow> OutputDraw" where
  "exportMapping dfw dfh p pel profileImg frameImg =
     (let sx = js_div (Num (real (width frameImg))) (Num (of_int dfw));
          sy = js_div (Num (real (height frameImg))) (Num (of_int dfh));
          baseDisplayedProfileWidth =
            js_or_opt (map_option offsetWidth pel) (int (width profileImg));
          baseDisplayedProfileHeight =
            js_or_opt (map_option offsetHeight pel) (int (height profileImg))
      in \<lparr>scaleX = sx, scaleY = sy,
          actualX = js_mul (js_add (js_div (Num (of_int dfw)) (Num 2)) (img_x p)) sx,
          actualY = js_mul (js_add (js_div (Num (of_int dfh)) (Num 2)) (img_y p)) sy,
          destWidth =
            js_mul (js_mul (Num (of_int baseDisplayedProfileWidth)) (scale p)) (js_min sx sy),
          destHeight =
            js_mul (js_mul (Num (of_int baseDisplayedProfileHeight)) (scale p)) (js_min sx sy),
          rotationRadians = js_div (js_mul (rotation p) (to_double pi)) (Num 180)\<rparr>)"

text \<open>
  The body of \<open>frameImg.onload\<close>: the drawing sequence on the canvas, photo first and
  frame second.
\<close>

definition renderCanvas ::
    "resampler \<Rightarrow> Dom \<Rightarrow> PendingExport \<Rightarrow> Img \<Rightarrow> Img \<Rightarrow> Canvas" where
  "renderCanvas rs page pe profileImg frameImg =
     (let c0 = clearRect_all (canvas_resize (width frameImg) (height frameImg));
          d = exportMapping (displayedFrameWidth pe) (displayedFrameHeight pe)
                (exportProfile pe) (profileImgElementRef page) profileImg frameImg;
          c1 = ctx_save c0;
          c2 = ctx_translate (actualX d) (actualY d) c1;
          c3 = ctx_rotate (rotationRadians d) c2;
          c4 = drawImage rs profileImg
                 (js_div (js_neg (destWidth d)) (Num 2)) (js_div (js_neg (destHeight d)) (Num 2))
                 (destWidth d) (destHeight d) c3;
          c5 = ctx_restore c4
      in drawImage rs frameImg (Num 0) (Num 0)
           (Num (real (cwidth c5))) (Num (real (cheight c5))) c5)"

text \<open>
  The download: the name of the file and the PNG, which is lossless, as the bitmap it
  encodes.
\<close>

record Download =
  filename :: string
  pngWidth :: nat
  pngHeight :: nat
  pngPixels :: "pixel \<Rightarrow> rgba"

definition download_of :: "Canvas \<Rightarrow> Download" where
  "download_of c =
     \<lparr>filename = ''twibbon-image.png'', pngWidth = cwidth c, pngHeight = cheight c,
      pngPixels = bitmap c\<rparr>"

text \<open>
  The export after \<open>handleDownload\<close> has returned: it waits for the photo to load, then
  for the frame, and draws and downloads in the frame's \<open>onload\<close>. The page is read again
  there (\<open>profileImgElementRef\<close>).
\<close>

datatype ExportPhase =
    AwaitProfile PendingExport
  | AwaitFrame PendingExport Img
  | Downloaded Download

datatype LoadEvent = ProfileLoaded Img | FrameLoaded Img

fun on_load ::
    "resampler \<Rightarrow> Dom \<Rightarrow> LoadEvent \<Rightarrow> AppState \<times> ExportPhase \<Rightarrow> AppState \<times> ExportPhase" where
  "on_load rs page (ProfileLoaded profileImg) (s, AwaitProfile pe) = (s, AwaitFrame pe profileImg)"
| "on_load rs page (FrameLoaded frameImg) (s, AwaitFrame pe profileImg) =
     (toast_success ''Image downloaded successfully!'' s,
      Downloaded (download_of (renderCanvas rs page pe profileImg frameImg)))"
| "on_load rs page ev st = st"

text \<open>The name of the file that was downloaded, if the export has got that far.\<close>

definition download_name :: "ExportPhase \<Rightarrow> string option" where
  "download_name ph = (case ph of Downloaded d \<Rightarrow> Some (filename d) | _ \<Rightarrow> None)"

section \<open>Example inputs\<close>

text \<open>
  A page whose preview is laid out at 300 by 300 with the photo at 150 by 150 (the
  specification's scenario A), and a page that is not laid out yet: every size is zero.
\<close>

definition page_300 :: Dom where
  "page_300 =
     \<lparr>canvasRef = True, context2d = True,
      canvasContainerRef = Some \<lparr>clientWidth = 300, clientHeight = 300\<rparr>,
      frameImgElementRef = Some \<lparr>offsetWidth = 300, offsetHeight = 300\<rparr>,
      profileImgElementRef = Some \<lparr>offsetWidth = 150, offsetHeight = 150\<rparr>\<rparr>"

definition page_unlaid :: Dom where
  "page_unlaid =
     \<lparr>canvasRef = True, context2d = True,
      canvasContainerRef = Some \<lparr>clientWidth = 0, clientHeight = 0\<rparr>,
      frameImgElementRef = Some \<lparr>offsetWidth = 0, offsetHeight = 0\<rparr>,
      profileImgElementRef = Some \<lparr>offsetWidth = 0, offsetHeight = 0\<rparr>\<rparr>"

text \<open>The photo's state right after an upload whose data URL is \<open>data:,\<close>.\<close>

definition photo_default :: ImageState where
  "photo_default =
     \<lparr>src = ''data:,'', img_x = Num 0, img_y = Num 0, scale = Num 1, rotation = Num 0\<rparr>"

definition uploadedState :: AppState where
  "uploadedState = reader_onload ''data:,'' Profile initialState"

definition blank_img :: "nat \<Rightarrow> nat \<Rightarrow> Img" where
  "blank_img w h = \<lparr>width = w, height = h, pix = (\<lambda>q. transparent)\<rparr>"

definition opaque_red :: rgba where
  "opaque_red = \<lparr>red = 1, green = 0, blue = 0, alpha = 1\<rparr>"

definition opaque_blue :: rgba where
  "opaque_blue = \<lparr>red = 0, green = 0, blue = 1, alpha = 1\<rparr>"

text \<open>
  A frame of 2 by 2 pixels, opaque red at (0, 0) and transparent elsewhere; a photo that
  is opaque blue everywhere; a sampling that paints every pixel with the image's pixel of
  the same coordinates, whatever the matrix and the rectangle.
\<close>

definition frame_2x2 :: Img where
  "frame_2x2 =
     \<lparr>width = 2, height = 2, pix = (\<lambda>q. if q = (0, 0) then opaque_red else transparent)\<rparr>"

definition photo_blue :: Img where
  "photo_blue = \<lparr>width = 4, height = 4, pix = (\<lambda>q. opaque_blue)\<rparr>"

definition sample_same_pixel :: resampler where
  "sample_same_pixel m img dx dy dw dh q = pix img q"

definition pending_300 :: PendingExport where
  "pending_300 =
     \<lparr>displayedFrameWidth = 300, displayedFrameHeight = 300, exportProfile = photo_default,
      exportFrame = ''/frames/DP.png''\<rparr>"

definition pending_unlaid :: PendingExport where
  "pending_unlaid =
     \<lparr>displayedFrameWidth = 0, displayedFrameHeight = 0, exportProfile = photo_default,
      exportFrame = ''/frames/DP.png''\<rparr>"

section \<open>Lemmas\<close>

lemma uploadedState_eq:
  "uploadedState =
     \<lparr>profileImage = Some photo_default, frameImage = Some ''/frames/DP.png'',
      fileInputValue = Some [],
      toasts = [ToastSuccess ''Profile image uploaded successfully!'']\<rparr>"
  by (simp add: uploadedState_def reader_onload_def initialState_def toast_success_def
      photo_default_def)

lemma initialState_profileImage: "profileImage initialState = None"
  by (simp add: initialState_def)


lemma handleZoom_Some:
  "profileImage s = Some p \<Longrightarrow>
   profileImage (handleZoom d s) = Some (p\<lparr>scale := zoomed_scale d (scale p)\<rparr>)"
  by (simp add: handleZoom_def toast_success_def)

subsection \<open>Rounding\<close>

lemma round_half_even_eqI: "\<bar>r - of_int m\<bar> < 1 / 2 \<Longrightarrow> round_half_even r = m"
proof -
  assume a: "\<bar>r - of_int m\<bar> < 1 / 2"
  show ?thesis
  proof (cases "of_int m \<le> r")
    case True
    with a have "\<lfloor>r\<rfloor> = m" by (intro floor_unique) auto
    with a True show ?thesis by (simp add: round_half_even_def Let_def)
  next
    case False
    with a have "\<lfloor>r\<rfloor> = m - 1" by (intro floor_unique) auto
    with a False show ?thesis by (auto simp add: round_half_even_def Let_def)
  qed
qed


lemma two_powr_int: "2 powr real_of_int k = (2::real) powi k"
  by (rule powr_real_of_int') simp_all


lemma floor_log2_eqI:
  assumes "0 < x" "2 powi e \<le> x" "x < 2 powi (e + 1)"
  shows "\<lfloor>log 2 x\<rfloor> = e"
proof -
  have "real_of_int e + 1 = real_of_int (e + 1)" by simp
  then have "2 powr (real_of_int e) \<le> x \<and> x < 2 powr (real_of_int e + 1)"
    using assms(2,3) by (simp only: two_powr_int)
  then show ?thesis using assms(1) floor_log_eq_powr_iff [of x 2 e] by simp
qed


lemma to_double_not_NaN: "to_double x \<noteq> NaN"
  by (simp add: to_double_def Let_def js_inf_of_sign_def)

text \<open>Evaluation at a concrete value below 2 to the 53: the result is m / 2 ^ n.\<close>

lemma to_double_small:
  assumes "2 ^ 52 \<le> \<bar>x\<bar> * 2 ^ n" and "\<bar>x\<bar> * 2 ^ n < 2 ^ 53" and "n \<le> 1074"
    and "\<bar>x * 2 ^ n - of_int m\<bar> < 1 / 2"
  shows "to_double x = Num (of_int m / 2 ^ n)"
proof -
  have x0: "x \<noteq> 0" using assms(1) by auto
  have p: "(2::real) powi (52 - int n) = 2 ^ 52 / 2 ^ n"
    by (simp add: power_int_diff)
  have q: "(2::real) powi (52 - int n + 1) = 2 ^ 53 / 2 ^ n"
    by (simp add: power_int_diff power_int_add)
  have "\<lfloor>log 2 \<bar>x\<bar>\<rfloor> = 52 - int n"
  proof (rule floor_log2_eqI)
    show "0 < \<bar>x\<bar>" using x0 by simp
    show "2 powi (52 - int n) \<le> \<bar>x\<bar>" unfolding p using assms(1) by (simp add: field_simps)
    show "\<bar>x\<bar> < 2 powi (52 - int n + 1)" unfolding q using assms(2) by (simp add: field_simps)
  qed
  then have e: "double_ulp_exponent x = - int n"
    using assms(3) by (simp add: double_ulp_exponent_def)
  have u: "(2::real) powi (- int n) = 1 / 2 ^ n"
    by (simp add: power_int_minus_divide)
  have r: "round_half_even (x * 2 ^ n) = m"
    using assms(4) by (rule round_half_even_eqI)
  have "\<bar>of_int m\<bar> \<le> \<bar>x * 2 ^ n\<bar> + 1 / 2" using assms(4) by linarith
  also have "\<dots> < 2 ^ 53 + 1 / 2" using assms(2) by (simp add: abs_mult)
  finally have mb: "\<bar>real_of_int m\<bar> < 2 ^ 53 + 1 / 2" .
  have "\<bar>real_of_int m / 2 ^ n\<bar> \<le> \<bar>real_of_int m\<bar>"
    by (simp add: abs_divide field_simps mult_le_cancel_left1)
  also have "\<dots> < double_overflow"
  proof -
    have "(2::real) ^ 53 + 1 / 2 \<le> 2 ^ 54" by simp
    also have "(2::real) ^ 54 \<le> 2 ^ 1024" by (rule power_increasing) simp_all
    finally show ?thesis using mb by (simp only: double_overflow_def)
  qed
  finally have nov: "\<not> double_overflow \<le> \<bar>real_of_int m / 2 ^ n\<bar>" by simp
  show ?thesis
    using x0 nov by (simp add: to_double_def Let_def e u r)
qed

lemma to_double_0: "to_double 0 = Num 0"
  by (simp add: to_double_def)


subsection \<open>The clamp of the zoom\<close>

text \<open>The doubles of the literals 0.1, 1.1 and 0.9, and the twelve steps from 1 to the clamp.\<close>

lemma to_double_tenth: "to_double (1 / 10) = Num (7205759403792794 / 2 ^ 56)"
proof -
  have "to_double (1 / 10) = Num (of_int 7205759403792794 / 2 ^ 56)"
    by (rule to_double_small) simp_all
  then show ?thesis by simp
qed

lemma to_double_zoom_in: "to_double (11 / 10) = Num (4953959590107546 / 2 ^ 52)"
proof -
  have "to_double (11 / 10) = Num (of_int 4953959590107546 / 2 ^ 52)"
    by (rule to_double_small) simp_all
  then show ?thesis by simp
qed

lemma to_double_zoom_out: "to_double (9 / 10) = Num (8106479329266893 / 2 ^ 53)"
proof -
  have "to_double (9 / 10) = Num (of_int 8106479329266893 / 2 ^ 53)"
    by (rule to_double_small) simp_all
  then show ?thesis by simp
qed

lemma zoom_in_step_1: "zoomed_scale ZoomIn (Num (1)) = Num (4953959590107546 / 2 ^ 52)"
proof -
  have "to_double (1 * (4953959590107546 / 2 ^ 52)) = Num (of_int 4953959590107546 / 2 ^ 52)"
    by (rule to_double_small) simp_all
  then show ?thesis
    by (simp add: zoomed_scale_def zoom_factor_def to_double_tenth to_double_zoom_in)
qed

lemma zoom_in_step_2: "zoomed_scale ZoomIn (Num (4953959590107546 / 2 ^ 52)) = Num (5449355549118301 / 2 ^ 52)"
proof -
  have "to_double (4953959590107546 / 2 ^ 52 * (4953959590107546 / 2 ^ 52)) = Num (of_int 5449355549118301 / 2 ^ 52)"
    by (rule to_double_small) simp_all
  then show ?thesis
    by (simp add: zoomed_scale_def zoom_factor_def to_double_tenth to_double_zoom_in)
qed

lemma zoom_in_step_3: "zoomed_scale ZoomIn (Num (5449355549118301 / 2 ^ 52)) = Num (5994291104030132 / 2 ^ 52)"
proof -
  have "to_double (5449355549118301 / 2 ^ 52 * (4953959590107546 / 2 ^ 52)) = Num (of_int 5994291104030132 / 2 ^ 52)"
    by (rule to_double_small) simp_all
  then show ?thesis
    by (simp add: zoomed_scale_def zoom_factor_def to_double_tenth to_double_zoom_in)
qed

lemma zoom_in_step_4: "zoomed_scale ZoomIn (Num (5994291104030132 / 2 ^ 52)) = Num (6593720214433146 / 2 ^ 52)"
proof -
  have "to_double (5994291104030132 / 2 ^ 52 * (4953959590107546 / 2 ^ 52)) = Num (of_int 6593720214433146 / 2 ^ 52)"
    by (rule to_double_small) simp_all
  then show ?thesis
    by (simp add: zoomed_scale_def zoom_factor_def to_double_tenth to_double_zoom_in)
qed

lemma zoom_in_step_5: "zoomed_scale ZoomIn (Num (6593720214433146 / 2 ^ 52)) = Num (7253092235876461 / 2 ^ 52)"
proof -
  have "to_double (6593720214433146 / 2 ^ 52 * (4953959590107546 / 2 ^ 52)) = Num (of_int 7253092235876461 / 2 ^ 52)"
    by (rule to_double_small) simp_all
  then show ?thesis
    by (simp add: zoomed_scale_def zoom_factor_def to_double_tenth to_double_zoom_in)
qed

lemma zoom_in_step_6: "zoomed_scale ZoomIn (Num (7253092235876461 / 2 ^ 52)) = Num (7978401459464108 / 2 ^ 52)"
proof -
  have "to_double (7253092235876461 / 2 ^ 52 * (4953959590107546 / 2 ^ 52)) = Num (of_int 7978401459464108 / 2 ^ 52)"
    by (rule to_double_small) simp_all
  then show ?thesis
    by (simp add: zoomed_scale_def zoom_factor_def to_double_tenth to_double_zoom_in)
qed

lemma zoom_in_step_7: "zoomed_scale ZoomIn (Num (7978401459464108 / 2 ^ 52)) = Num (8776241605410520 / 2 ^ 52)"
proof -
  have "to_double (7978401459464108 / 2 ^ 52 * (4953959590107546 / 2 ^ 52)) = Num (of_int 8776241605410520 / 2 ^ 52)"
    by (rule to_double_small) simp_all
  then show ?thesis
    by (simp add: zoomed_scale_def zoom_factor_def to_double_tenth to_double_zoom_in)
qed

lemma zoom_in_step_8: "zoomed_scale ZoomIn (Num (8776241605410520 / 2 ^ 52)) = Num (4826932882975786 / 2 ^ 51)"
proof -
  have "to_double (8776241605410520 / 2 ^ 52 * (4953959590107546 / 2 ^ 52)) = Num (of_int 4826932882975786 / 2 ^ 51)"
    by (rule to_double_small) simp_all
  then show ?thesis
    by (simp add: zoomed_scale_def zoom_factor_def to_double_tenth to_double_zoom_in)
qed

lemma zoom_in_step_9: "zoomed_scale ZoomIn (Num (4826932882975786 / 2 ^ 51)) = Num (5309626171273365 / 2 ^ 51)"
proof -
  have "to_double (4826932882975786 / 2 ^ 51 * (4953959590107546 / 2 ^ 52)) = Num (of_int 5309626171273365 / 2 ^ 51)"
    by (rule to_double_small) simp_all
  then show ?thesis
    by (simp add: zoomed_scale_def zoom_factor_def to_double_tenth to_double_zoom_in)
qed

lemma zoom_in_step_10: "zoomed_scale ZoomIn (Num (5309626171273365 / 2 ^ 51)) = Num (5840588788400702 / 2 ^ 51)"
proof -
  have "to_double (5309626171273365 / 2 ^ 51 * (4953959590107546 / 2 ^ 52)) = Num (of_int 5840588788400702 / 2 ^ 51)"
    by (rule to_double_small) simp_all
  then show ?thesis
    by (simp add: zoomed_scale_def zoom_factor_def to_double_tenth to_double_zoom_in)
qed

lemma zoom_in_step_11: "zoomed_scale ZoomIn (Num (5840588788400702 / 2 ^ 51)) = Num (6424647667240773 / 2 ^ 51)"
proof -
  have "to_double (5840588788400702 / 2 ^ 51 * (4953959590107546 / 2 ^ 52)) = Num (of_int 6424647667240773 / 2 ^ 51)"
    by (rule to_double_small) simp_all
  then show ?thesis
    by (simp add: zoomed_scale_def zoom_factor_def to_double_tenth to_double_zoom_in)
qed

lemma zoom_in_step_12: "zoomed_scale ZoomIn (Num (6424647667240773 / 2 ^ 51)) = Num (3)"
proof -
  have "to_double (6424647667240773 / 2 ^ 51 * (4953959590107546 / 2 ^ 52)) = Num (of_int 7067112433964851 / 2 ^ 51)"
    by (rule to_double_small) simp_all
  then show ?thesis
    by (simp add: zoomed_scale_def zoom_factor_def to_double_tenth to_double_zoom_in)
qed

lemma zoom_in_step_max: "zoomed_scale ZoomIn (Num 3) = Num 3"
proof -
  have "to_double (3 * (4953959590107546 / 2 ^ 52)) = Num (of_int 7430939385161319 / 2 ^ 51)"
    by (rule to_double_small) simp_all
  then show ?thesis
    by (simp add: zoomed_scale_def zoom_factor_def to_double_tenth to_double_zoom_in)
qed

lemma zoom_in_12: "(zoomed_scale ZoomIn ^^ 12) (Num 1) = Num 3"
  using zoom_in_step_1 zoom_in_step_2 zoom_in_step_3 zoom_in_step_4 zoom_in_step_5 zoom_in_step_6 zoom_in_step_7 zoom_in_step_8 zoom_in_step_9 zoom_in_step_10 zoom_in_step_11 zoom_in_step_12
  by (simp add: eval_nat_numeral)

lemma zoom_in_at_max: "(zoomed_scale ZoomIn ^^ n) (Num 3) = Num 3"
  by (induction n) (simp_all add: zoom_in_step_max)

lemma clamp_in_bounds:
  "a \<noteq> NaN \<Longrightarrow> scale_in_bounds (js_max (to_double 0.1) (js_min (Num 3) a))"
  by (cases a) (auto simp add: to_double_tenth)

lemma js_mul_zoom_factor_not_NaN:
  "scale_in_bounds a \<Longrightarrow> js_mul a (zoom_factor d) \<noteq> NaN"
  by (cases a; cases d)
    (simp_all add: zoom_factor_def to_double_zoom_in to_double_zoom_out to_double_not_NaN)

lemma zoomed_scale_in_bounds:
  "scale_in_bounds a \<Longrightarrow> scale_in_bounds (zoomed_scale d a)"
  unfolding zoomed_scale_def by (rule clamp_in_bounds) (rule js_mul_zoom_factor_not_NaN)

lemma handleZoom_funpow:
  "profileImage s = Some p \<Longrightarrow>
   profileImage ((handleZoom d ^^ n) s) = Some (p\<lparr>scale := (zoomed_scale d ^^ n) (scale p)\<rparr>)"
proof (induction n)
  case 0
  then show ?case by simp
next
  case (Suc n)
  from handleZoom_Some [OF Suc.IH [OF Suc.prems], of d]
  show ?case by simp
qed

lemma zoom_in_50: "(zoomed_scale ZoomIn ^^ 50) (Num 1) = Num 3"
proof -
  have "(zoomed_scale ZoomIn ^^ (38 + 12)) (Num 1) =
        (zoomed_scale ZoomIn ^^ 38) ((zoomed_scale ZoomIn ^^ 12) (Num 1))"
    by (simp only: funpow_add o_apply)
  then show ?thesis by (simp add: zoom_in_12 zoom_in_at_max)
qed

lemma unclamped_power: "(1.1::real) ^ 50 \<noteq> 3"
  by (simp add: power_divide)

subsection \<open>The anchor under rounding\<close>










subsection \<open>The canvas\<close>

lemma source_over_opaque: "alpha s = 1 \<Longrightarrow> source_over s b = s"
  by (simp add: source_over_def)

lemma drawImage_state:
  "cwidth (drawImage rs img dx dy dw dh c) = cwidth c \<and>
   cheight (drawImage rs img dx dy dw dh c) = cheight c \<and>
   ctm (drawImage rs img dx dy dw dh c) = ctm c \<and>
   saved (drawImage rs img dx dy dw dh c) = saved c"
  by (simp add: drawImage_def draw_layer_def split: option.splits)

lemma ctx_translate_state:
  "cwidth (ctx_translate tx ty c) = cwidth c \<and> cheight (ctx_translate tx ty c) = cheight c \<and>
   saved (ctx_translate tx ty c) = saved c"
  by (simp add: ctx_translate_def split: option.splits)

lemma ctx_rotate_state:
  "cwidth (ctx_rotate a c) = cwidth c \<and> cheight (ctx_rotate a c) = cheight c \<and>
   saved (ctx_rotate a c) = saved c"
  by (simp add: ctx_rotate_def split: option.splits)

lemma ctx_restore_pops:
  "saved c = t # ts \<Longrightarrow>
   ctm (ctx_restore c) = t \<and> cwidth (ctx_restore c) = cwidth c \<and>
   cheight (ctx_restore c) = cheight c"
  by (simp add: ctx_restore_def)

text \<open>
  An image drawn at its own size on a canvas of that size, under the identity matrix,
  shows through at each of its opaque pixels.
\<close>

lemma drawImage_own_size:
  assumes "ctm c = []" and "cwidth c = width img" and "cheight c = height img"
    and "in_rect (width img) (height img) q" and "alpha (pix img q) = 1"
  shows "bitmap (drawImage rs img (Num 0) (Num 0) (Num (real (cwidth c)))
           (Num (real (cheight c))) c) q = pix img q"
proof -
  obtain i j where q: "q = (i, j)" by (cases q)
  from assms(4) q have nz: "width img \<noteq> 0" "height img \<noteq> 0" by auto
  have "drawImage rs img (Num 0) (Num 0) (Num (real (cwidth c))) (Num (real (cheight c))) c
        = draw_layer (image_layer img) c"
    using assms(1-3) nz by (simp add: drawImage_def)
  then show ?thesis
    using assms(2-5) by (simp add: draw_layer_def image_layer_def source_over_opaque)
qed

section \<open>The claims\<close>

subsection \<open>The anchor of the photo\<close>




subsection \<open>Zoom\<close>

text \<open>
  Claim C2. From a scale within [0.1, 3], any finite sequence of zoom-in and zoom-out
  operations leaves the photo with a scale within [0.1, 3].
\<close>

theorem zoom_scale_in_bounds:
  "profileImage s = Some p \<Longrightarrow> scale_in_bounds (scale p) \<Longrightarrow>
   \<exists>p'. profileImage (fold handleZoom ds s) = Some p' \<and> scale_in_bounds (scale p')"
proof (induction ds arbitrary: s p)
  case Nil
  then show ?case by simp
next
  case (Cons d ds)
  have step: "profileImage (handleZoom d s) = Some (p\<lparr>scale := zoomed_scale d (scale p)\<rparr>)"
    using Cons.prems(1) by (rule handleZoom_Some)
  have "scale_in_bounds (scale (p\<lparr>scale := zoomed_scale d (scale p)\<rparr>))"
    using zoomed_scale_in_bounds [OF Cons.prems(2)] by simp
  from Cons.IH [OF step this] show ?case by simp
qed

theorem zoom_scale_in_bounds_witness:
  "profileImage uploadedState = Some photo_default \<and> scale_in_bounds (scale photo_default) \<and>
   (\<exists>p'. profileImage (fold handleZoom [ZoomIn, ZoomOut, ZoomOut] uploadedState) = Some p' \<and>
         scale_in_bounds (scale p'))"
  using zoom_scale_in_bounds [of uploadedState photo_default "[ZoomIn, ZoomOut, ZoomOut]"]
  by (simp add: uploadedState_eq photo_default_def)

text \<open>
  Claim C3. Fifty zoom-in operations in a row from scale 1 leave the scale at exactly 3,
  the upper clamp bound, and not at 1.1 to the power 50.
\<close>

theorem zoom_in_50_times:
  "profileImage s = Some p \<Longrightarrow> scale p = Num 1 \<Longrightarrow>
   photo_scale ((handleZoom ZoomIn ^^ 50) s) = Some (Num 3) \<and>
   photo_scale ((handleZoom ZoomIn ^^ 50) s) \<noteq> Some (Num (1.1 ^ 50))"
  using unclamped_power by (simp add: photo_scale_def handleZoom_funpow zoom_in_50)

theorem zoom_in_50_times_witness:
  "profileImage uploadedState = Some photo_default \<and> scale photo_default = Num 1 \<and>
   photo_scale ((handleZoom ZoomIn ^^ 50) uploadedState) = Some (Num 3)"
  using zoom_in_50_times [of uploadedState photo_default]
  by (simp add: uploadedState_eq photo_default_def)

subsection \<open>Export without a layout, and before the images have loaded\<close>

text \<open>
  Against claim C4: on a page that is not laid out, where the frame's element and the
  container both have size zero, \<open>handleDownload\<close> does not fail. It starts the export
  with a displayed frame size of zero; the mapping divides by it, so both scale factors are
  infinite and the anchor is NaN; and the download is produced once the images have loaded.
\<close>

theorem zero_size_export_counterexample:
  "handleDownload page_unlaid uploadedState = (uploadedState, Inr pending_unlaid) \<and>
   scaleX (exportMapping 0 0 photo_default (profileImgElementRef page_unlaid)
     (blank_img 400 400) (blank_img 1000 1000)) = PosInf \<and>
   scaleY (exportMapping 0 0 photo_default (profileImgElementRef page_unlaid)
     (blank_img 400 400) (blank_img 1000 1000)) = PosInf \<and>
   actualX (exportMapping 0 0 photo_default (profileImgElementRef page_unlaid)
     (blank_img 400 400) (blank_img 1000 1000)) = NaN \<and>
   download_name (snd (fold (on_load sample_same_pixel page_unlaid)
     [ProfileLoaded (blank_img 400 400), FrameLoaded (blank_img 1000 1000)]
     (uploadedState, AwaitProfile pending_unlaid))) = Some ''twibbon-image.png''"
  by (simp add: uploadedState_eq handleDownload_def page_unlaid_def pending_unlaid_def
      js_or_opt_def js_or_def Let_def exportMapping_def blank_img_def photo_default_def
      js_inf_of_sign_def to_double_0 download_name_def download_of_def)

text \<open>
  Claim C4, amended. The export has no failure for a degenerate layout. With the canvas,
  its context, the container, a photo and a frame there, \<open>handleDownload\<close> starts the
  export whatever the sizes: the displayed frame width (height) is the \<open>offsetWidth\<close>
  (\<open>offsetHeight\<close>) of the frame's element, or the container's \<open>clientWidth\<close>
  (\<open>clientHeight\<close>) when the element is missing or that size is zero. A displayed size of
  zero is divided by: the scale factor is then infinite for a positive natural size and
  NaN for a natural size of zero. Once the photo and the frame have loaded, the file is
  downloaded.
\<close>

theorem export_without_size_check:
  "canvasRef page \<Longrightarrow> context2d page \<Longrightarrow> canvasContainerRef page = Some cont \<Longrightarrow>
   profileImage s = Some p \<Longrightarrow> frameImage s = Some f \<Longrightarrow> f \<noteq> [] \<Longrightarrow>
   handleDownload page s =
     (s, Inr \<lparr>displayedFrameWidth =
               js_or_opt (map_option offsetWidth (frameImgElementRef page)) (clientWidth cont),
             displayedFrameHeight =
               js_or_opt (map_option offsetHeight (frameImgElementRef page)) (clientHeight cont),
             exportProfile = p, exportFrame = f\<rparr>) \<and>
   scaleX (exportMapping 0 dfh p pel profileImg frameImg) =
     js_inf_of_sign (real (width frameImg)) \<and>
   scaleY (exportMapping dfw 0 p pel profileImg frameImg) =
     js_inf_of_sign (real (height frameImg)) \<and>
   download_name (snd (fold (on_load rs page') [ProfileLoaded profileImg, FrameLoaded frameImg]
     (s, AwaitProfile pe))) = Some ''twibbon-image.png''"
  by (simp add: handleDownload_def Let_def exportMapping_def download_name_def download_of_def)

theorem export_without_size_check_witness:
  "canvasRef page_unlaid \<and> context2d page_unlaid \<and>
   canvasContainerRef page_unlaid = Some \<lparr>clientWidth = 0, clientHeight = 0\<rparr> \<and>
   profileImage uploadedState = Some photo_default \<and>
   frameImage uploadedState = Some ''/frames/DP.png'' \<and>
   snd (handleDownload page_unlaid uploadedState) = Inr pending_unlaid \<and>
   scaleX (exportMapping 0 0 photo_default None (blank_img 400 400) (blank_img 1000 1000)) =
     PosInf"
  using export_without_size_check [of page_unlaid "\<lparr>clientWidth = 0, clientHeight = 0\<rparr>"
      uploadedState photo_default "''/frames/DP.png''"
      0 None "blank_img 400 400" "blank_img 1000 1000" 0]
  by (simp add: uploadedState_eq page_unlaid_def pending_unlaid_def js_or_opt_def js_or_def
      js_inf_of_sign_def blank_img_def)

text \<open>
  Against claim C5: an export requested with a photo and a frame set reports nothing at
  the request, while neither image of the export has loaded: it waits for the photo and
  then for the frame, and downloads the file when the frame has loaded.
\<close>

theorem export_waits_for_loads_counterexample:
  "handleDownload page_300 uploadedState = (uploadedState, Inr pending_300) \<and>
   fold (on_load sample_same_pixel page_300) [ProfileLoaded photo_blue]
     (uploadedState, AwaitProfile pending_300) = (uploadedState, AwaitFrame pending_300 photo_blue) \<and>
   download_name (snd (fold (on_load sample_same_pixel page_300)
     [ProfileLoaded photo_blue, FrameLoaded frame_2x2]
     (uploadedState, AwaitProfile pending_300))) = Some ''twibbon-image.png''"
  by (simp add: uploadedState_eq handleDownload_def page_300_def pending_300_def
      js_or_opt_def js_or_def Let_def download_name_def download_of_def)

text \<open>
  Claim C5, amended. An export requested while no photo or no frame is set shows an error
  toast, produces nothing and leaves nothing waiting. An export requested with the
  canvas, its context, the container, a photo and a frame there reports nothing at the
  request: it waits for the photo to load, then for the frame, and when the frame has
  loaded it draws the canvas and downloads the file.
\<close>

theorem export_not_ready:
  "((profileImage s = None \<or> frameImage s = None \<or> frameImage s = Some []) \<longrightarrow>
      handleDownload page s =
        (toast_error ''Please upload both profile image and frame first!'' s, Inl NotUploaded)) \<and>
   (canvasRef page \<and> context2d page \<and> canvasContainerRef page = Some cont \<and>
    profileImage s = Some p \<and> frameImage s = Some f \<and> f \<noteq> [] \<longrightarrow>
      fst (handleDownload page s) = s \<and>
      (\<exists>pe. snd (handleDownload page s) = Inr pe \<and> exportProfile pe = p \<and> exportFrame pe = f \<and>
         fold (on_load rs page') [ProfileLoaded profileImg] (s, AwaitProfile pe) =
           (s, AwaitFrame pe profileImg) \<and>
         fold (on_load rs page') [ProfileLoaded profileImg, FrameLoaded frameImg]
             (s, AwaitProfile pe) =
           (toast_success ''Image downloaded successfully!'' s,
            Downloaded (download_of (renderCanvas rs page' pe profileImg frameImg)))))"
  by (auto simp add: handleDownload_def Let_def split: option.splits)

theorem export_not_ready_witness:
  "profileImage initialState = None \<and>
   handleDownload page_300 initialState =
     (toast_error ''Please upload both profile image and frame first!'' initialState,
      Inl NotUploaded) \<and>
   canvasRef page_300 \<and> context2d page_300 \<and>
   canvasContainerRef page_300 = Some \<lparr>clientWidth = 300, clientHeight = 300\<rparr> \<and>
   profileImage uploadedState = Some photo_default \<and>
   frameImage uploadedState = Some ''/frames/DP.png'' \<and>
   fst (handleDownload page_300 uploadedState) = uploadedState"
  using export_not_ready [of initialState page_300]
    export_not_ready [of uploadedState page_300
      "\<lparr>clientWidth = 300, clientHeight = 300\<rparr>" photo_default "''/frames/DP.png''"]
  by (simp add: uploadedState_eq page_300_def initialState_profileImage)

subsection \<open>Rotation\<close>

text \<open>
  Against claim C6: the slider reaches 360, and at 360 the rotation is set to 360, which
  is outside the half-open interval from 0 to 360.
\<close>

theorem slider_rotation_360_counterexample:
  "rotation_slider_min \<le> 360 \<and> 360 \<le> rotation_slider_max \<and>
   photo_rotation (rotation_slider_onChange 360 uploadedState) = Some (Num 360) \<and>
   \<not> spec_rotation_domain (Num 360)"
  by (simp add: uploadedState_eq rotation_slider_min_def rotation_slider_max_def
      rotation_slider_onChange_def handlePreciseRotate_def photo_rotation_def)

text \<open>
  Claim C6, amended. After a slider input at a value \<open>v\<close> between the slider's minimum 0
  and its maximum 360, the rotation is \<open>v\<close>, so it lies between 0 and 360, both ends
  included; the other fields of the photo are unchanged.
\<close>

theorem slider_rotation_range:
  "profileImage s = Some p \<Longrightarrow> rotation_slider_min \<le> v \<Longrightarrow> v \<le> rotation_slider_max \<Longrightarrow>
   profileImage (rotation_slider_onChange v s) = Some (p\<lparr>rotation := Num (real_of_int v)\<rparr>) \<and>
   photo_rotation (rotation_slider_onChange v s) = Some (Num (real_of_int v)) \<and>
   0 \<le> real_of_int v \<and> real_of_int v \<le> 360"
  by (simp add: rotation_slider_onChange_def handlePreciseRotate_def photo_rotation_def
      rotation_slider_min_def rotation_slider_max_def)

theorem slider_rotation_range_witness:
  "profileImage uploadedState = Some photo_default \<and>
   rotation_slider_min \<le> 45 \<and> 45 \<le> rotation_slider_max \<and>
   photo_rotation (rotation_slider_onChange 45 uploadedState) = Some (Num 45)"
  using slider_rotation_range [of uploadedState photo_default 45]
  by (simp add: uploadedState_eq rotation_slider_min_def rotation_slider_max_def)



subsection \<open>The frame on top\<close>

text \<open>
  Claim C7. The frame is drawn after the photo, under the identity matrix, at (0, 0) and
  at the size of the canvas, which is the frame's natural size. So at every pixel where
  the frame is opaque the exported image has the frame's pixel, whatever the photo, its
  state, the page and the way the platform samples the photo.
\<close>

theorem frame_drawn_last:
  "in_rect (width frameImg) (height frameImg) q \<Longrightarrow> alpha (pix frameImg q) = 1 \<Longrightarrow>
   bitmap (renderCanvas rs page pe profileImg frameImg) q = pix frameImg q \<and>
   pngPixels (download_of (renderCanvas rs page pe profileImg frameImg)) q = pix frameImg q"
proof -
  assume inr: "in_rect (width frameImg) (height frameImg) q"
    and opq: "alpha (pix frameImg q) = 1"
  define d where "d = exportMapping (displayedFrameWidth pe) (displayedFrameHeight pe)
                (exportProfile pe) (profileImgElementRef page) profileImg frameImg"
  define c4 where "c4 = drawImage rs profileImg
                 (js_div (js_neg (destWidth d)) (Num 2)) (js_div (js_neg (destHeight d)) (Num 2))
                 (destWidth d) (destHeight d)
                 (ctx_rotate (rotationRadians d) (ctx_translate (actualX d) (actualY d)
                   (ctx_save (clearRect_all (canvas_resize (width frameImg) (height frameImg))))))"
  have sv: "saved c4 = [[]]"
    by (simp add: c4_def drawImage_state ctx_rotate_state ctx_translate_state ctx_save_def
        clearRect_all_def canvas_resize_def)
  have w: "cwidth c4 = width frameImg" and h: "cheight c4 = height frameImg"
    by (simp_all add: c4_def drawImage_state ctx_rotate_state ctx_translate_state ctx_save_def
        clearRect_all_def canvas_resize_def)
  from ctx_restore_pops [OF sv] w h
  have c5: "ctm (ctx_restore c4) = []" "cwidth (ctx_restore c4) = width frameImg"
    "cheight (ctx_restore c4) = height frameImg" by simp_all
  have r: "renderCanvas rs page pe profileImg frameImg =
        drawImage rs frameImg (Num 0) (Num 0) (Num (real (cwidth (ctx_restore c4))))
          (Num (real (cheight (ctx_restore c4)))) (ctx_restore c4)"
    by (simp add: renderCanvas_def Let_def c4_def d_def)
  have "bitmap (renderCanvas rs page pe profileImg frameImg) q = pix frameImg q"
    unfolding r using c5 inr opq by (rule drawImage_own_size)
  then show ?thesis by (simp add: download_of_def)
qed

theorem frame_drawn_last_witness:
  "in_rect (width frame_2x2) (height frame_2x2) (0, 0) \<and> alpha (pix frame_2x2 (0, 0)) = 1 \<and>
   pngPixels (download_of (renderCanvas sample_same_pixel page_300 pending_300 photo_blue
     frame_2x2)) (0, 0) = opaque_red"
  using frame_drawn_last [of frame_2x2 "(0, 0)" sample_same_pixel page_300 pending_300 photo_blue]
  by (simp add: frame_2x2_def opaque_red_def)

subsection \<open>Upload and clear\<close>

text \<open>
  Claim C8. A file whose declared type does not start with \<open>image/\<close> is rejected: an
  error toast is shown, nothing is handed to the reader, and the photo with its offset,
  scale and rotation, and the frame, are as before.
\<close>

theorem upload_rejects_non_image:
  "\<not> prefix ''image/'' (ftype f) \<Longrightarrow>
   handleImageUpload (Some f) ty s = (toast_error ''Please select a valid image file'' s, None) \<and>
   profileImage (fst (handleImageUpload (Some f) ty s)) = profileImage s \<and>
   frameImage (fst (handleImageUpload (Some f) ty s)) = frameImage s \<and>
   toasts (fst (handleImageUpload (Some f) ty s)) =
     toasts s @ [ToastError ''Please select a valid image file'']"
  by (simp add: handleImageUpload_def toast_error_def)

theorem upload_rejects_non_image_witness:
  "\<not> prefix ''image/'' (ftype \<lparr>ftype = ''text/plain'', fcontents = ''hello''\<rparr>) \<and>
   profileImage (fst (handleImageUpload (Some \<lparr>ftype = ''text/plain'', fcontents = ''hello''\<rparr>)
     Profile (handleRotate uploadedState))) = Some (photo_default\<lparr>rotation := Num 90\<rparr>) \<and>
   toasts (fst (handleImageUpload (Some \<lparr>ftype = ''text/plain'', fcontents = ''hello''\<rparr>)
     Profile (handleRotate uploadedState))) =
     [ToastSuccess ''Profile image uploaded successfully!'', ToastSuccess ''Image rotated!'',
      ToastError ''Please select a valid image file'']"
  using upload_rejects_non_image [of "\<lparr>ftype = ''text/plain'', fcontents = ''hello''\<rparr>" Profile
      "handleRotate uploadedState"]
  by (simp add: uploadedState_eq toast_success_def toast_error_def handleRotate_def
      photo_default_def)

text \<open>
  Claim C9. The frame is \<open>/frames/DP.png\<close> at startup. The claim is that no operation
  offered to the user changes it; \<open>clearAll\<close>, behind the Clear All button, sets it to
  \<open>/frames/sample-frame.svg\<close>, and an export after the next upload uses that frame.
\<close>

theorem clearAll_changes_frame:
  "frameImage initialState = Some ''/frames/DP.png'' \<and>
   frameImage (clearAll initialState) = Some ''/frames/sample-frame.svg'' \<and>
   frameImage (clearAll initialState) \<noteq> frameImage initialState \<and>
   map_sum id exportFrame
     (snd (handleDownload page_300 (reader_onload ''data:,'' Profile (clearAll initialState)))) =
     Inr ''/frames/sample-frame.svg''"
  by (simp add: initialState_def clearAll_def toast_success_def reader_onload_def
      handleDownload_def page_300_def js_or_opt_def js_or_def)

end
